theory Spec2Isabelle
  imports Complex_Main
begin

section \<open>JavaScript values\<close>

text \<open>
  The values the handler of \<^verbatim>\<open>app.js\<close> touches: the members of \<^verbatim>\<open>req.body\<close> as
  \<^verbatim>\<open>express.urlencoded({ extended: true })\<close> leaves them, the entries of
  \<^verbatim>\<open>process.env\<close>, and the JSON a \<^verbatim>\<open>response.json()\<close> resolves to.
  A number is a double: not-a-number, an infinity, or a finite double, which is a
  rational; \<^verbatim>\<open><\<close> on finite doubles is the order of the rationals.
  Strings are lists of 8-bit characters (the code units below 256).
\<close>

datatype jsnum = NaN | NegInf | Fin rat | PosInf

datatype jsval =
    JUndefined
  | JNull
  | JBool bool
  | JNum jsnum
  | JStr string
  | JArr "jsval list"
  | JObj "(string \<times> jsval) list"

text \<open>ToBoolean, as \<^verbatim>\<open>!x\<close>, \<^verbatim>\<open>x || y\<close> and \<^verbatim>\<open>x ? a : b\<close> apply it.\<close>

fun truthy :: "jsval \<Rightarrow> bool" where
  "truthy JUndefined = False"
| "truthy JNull = False"
| "truthy (JBool b) = b"
| "truthy (JNum NaN) = False"
| "truthy (JNum (Fin r)) = (r \<noteq> 0)"
| "truthy (JNum NegInf) = True"
| "truthy (JNum PosInf) = True"
| "truthy (JStr s) = (s \<noteq> [])"
| "truthy (JArr xs) = True"
| "truthy (JObj fs) = True"

text \<open>\<^verbatim>\<open>a || b\<close>\<close>

definition js_or :: "jsval \<Rightarrow> jsval \<Rightarrow> jsval" where
  "js_or a b = (if truthy a then a else b)"

text \<open>
  What the program uses of the platform without defining it: the coercions of the
  JavaScript runtime on the values where they need a parser or a printer, and the
  functions of the validation library. They are parameters of the model.
  \<^item> \<open>ToNumber_other\<close>: ToNumber on strings, arrays and objects;
  \<^item> \<open>ToString_other\<close>: ToString on numbers, arrays and objects;
  \<^item> \<open>JSON_stringify\<close>: \<^verbatim>\<open>JSON.stringify\<close>;
  \<^item> \<open>normalizeEmail\<close> (\<open>None\<close> is its result \<^verbatim>\<open>false\<close>) and \<open>isEmail\<close>;
  \<^item> \<open>check_other\<close>: what the validation chain of a field does with a value that is
    not a string (the field is absent, an array or an object): the value it leaves
    in \<^verbatim>\<open>req.body\<close> and the messages it records.
\<close>

record platform =
  ToNumber_other :: "jsval \<Rightarrow> jsnum"
  ToString_other :: "jsval \<Rightarrow> string"
  JSON_stringify :: "jsval \<Rightarrow> string"
  normalizeEmail :: "string \<Rightarrow> string option"
  isEmail :: "string \<Rightarrow> bool"
  check_other :: "string \<Rightarrow> jsval \<Rightarrow> jsval \<times> string list"

fun ToNumber :: "platform \<Rightarrow> jsval \<Rightarrow> jsnum" where
  "ToNumber pf JUndefined = NaN"
| "ToNumber pf JNull = Fin 0"
| "ToNumber pf (JBool b) = Fin (if b then 1 else 0)"
| "ToNumber pf (JNum n) = n"
| "ToNumber pf v = ToNumber_other pf v"

fun ToString :: "platform \<Rightarrow> jsval \<Rightarrow> string" where
  "ToString pf JUndefined = ''undefined''"
| "ToString pf JNull = ''null''"
| "ToString pf (JBool b) = (if b then ''true'' else ''false'')"
| "ToString pf (JStr s) = s"
| "ToString pf v = ToString_other pf v"

text \<open>\<^verbatim>\<open>a < b\<close> on numbers: false as soon as one side is not-a-number.\<close>

fun num_less :: "jsnum \<Rightarrow> jsnum \<Rightarrow> bool" where
  "num_less NaN b = False"
| "num_less a NaN = False"
| "num_less PosInf b = False"
| "num_less a NegInf = False"
| "num_less NegInf b = True"
| "num_less a PosInf = True"
| "num_less (Fin x) (Fin y) = (x < y)"

text \<open>\<^verbatim>\<open>v < n\<close> with a number literal on the right: the left side is coerced by ToNumber.\<close>

definition js_less_num :: "platform \<Rightarrow> jsval \<Rightarrow> rat \<Rightarrow> bool" where
  "js_less_num pf v n = num_less (ToNumber pf v) (Fin n)"

text \<open>
  \<^verbatim>\<open>v.k\<close> for a key that is no built-in member: \<open>None\<close> is the TypeError of a read on
  \<^verbatim>\<open>null\<close> or \<^verbatim>\<open>undefined\<close>; an object gives its member or \<^verbatim>\<open>undefined\<close>; every other
  value gives \<^verbatim>\<open>undefined\<close>.
\<close>

fun get_member :: "jsval \<Rightarrow> string \<Rightarrow> jsval option" where
  "get_member JUndefined k = None"
| "get_member JNull k = None"
| "get_member (JObj fs) k = (case map_of fs k of None \<Rightarrow> Some JUndefined | Some v \<Rightarrow> Some v)"
| "get_member v k = Some JUndefined"

text \<open>\<^verbatim>\<open>xs.join(sep)\<close>: \<^verbatim>\<open>null\<close> and \<^verbatim>\<open>undefined\<close> elements print as the empty string.\<close>

fun join_item :: "platform \<Rightarrow> jsval \<Rightarrow> string" where
  "join_item pf JUndefined = []"
| "join_item pf JNull = []"
| "join_item pf v = ToString pf v"

fun join :: "platform \<Rightarrow> string \<Rightarrow> jsval list \<Rightarrow> string" where
  "join pf sep [] = []"
| "join pf sep [x] = join_item pf x"
| "join pf sep (x # y # ys) = join_item pf x @ sep @ join pf sep (y # ys)"

section \<open>The validation library on strings\<close>

text \<open>
  \<^verbatim>\<open>trim()\<close> removes white space at both ends; \<^verbatim>\<open>escape()\<close> replaces each of
  \<^verbatim>\<open>& " ' < > / \ `\<close> by its HTML entity; \<^verbatim>\<open>notEmpty()\<close> asks for length above 0 and
  \<^verbatim>\<open>isLength({ min: n })\<close> for length at least n.
\<close>

definition whitespace :: "char \<Rightarrow> bool" where
  "whitespace c = (c \<in> set [CHR 0x09, CHR 0x0A, CHR 0x0B, CHR 0x0C, CHR 0x0D, CHR 0x20, CHR 0xA0])"

definition ltrim :: "string \<Rightarrow> string" where
  "ltrim s = dropWhile whitespace s"

definition rtrim :: "string \<Rightarrow> string" where
  "rtrim s = rev (dropWhile whitespace (rev s))"

definition trim :: "string \<Rightarrow> string" where
  "trim s = rtrim (ltrim s)"

definition escape_char :: "char \<Rightarrow> string" where
  "escape_char c =
     (if c = CHR ''&'' then ''&amp;''
      else if c = CHR 0x22 then ''&quot;''
      else if c = CHR 0x27 then ''&#x27;''
      else if c = CHR ''<'' then ''&lt;''
      else if c = CHR ''>'' then ''&gt;''
      else if c = CHR ''/'' then ''&#x2F;''
      else if c = CHR 0x5C then ''&#x5C;''
      else if c = CHR 0x60 then ''&#96;''
      else [c])"

definition escape :: "string \<Rightarrow> string" where
  "escape s = concat (map escape_char s)"

definition notEmpty :: "string \<Rightarrow> bool" where
  "notEmpty s = (length s \<noteq> 0)"

definition isLength :: "nat \<Rightarrow> string \<Rightarrow> bool" where
  "isLength n s = (n \<le> length s)"

section \<open>validateForm\<close>

text \<open>
  \<^verbatim>\<open>req.body\<close> is read member by member: \<open>rb k\<close> is \<^verbatim>\<open>req.body[k]\<close>, \<open>JUndefined\<close> when
  the member is absent.

  Each \<^verbatim>\<open>check(field)\<close> chain runs its steps in the order written, on the value the
  earlier sanitizers left, records the message of every validator that fails, and
  stores the sanitized value back in \<^verbatim>\<open>req.body[field]\<close>. The result of a chain
  is that value and the messages, in order. The chains are modelled on the body of
  the request: a request that also carries a member of the same name in its query
  string, cookies or headers is outside the model.
\<close>

type_synonym req_body = "string \<Rightarrow> jsval"

definition check_first_name :: "platform \<Rightarrow> jsval \<Rightarrow> jsval \<times> string list" where
  "check_first_name pf v =
     (case v of
        JStr s \<Rightarrow>
          (let s' = escape (trim s) in
           (JStr s',
            (if notEmpty s' then [] else [''First name is required'']) @
            (if isLength 3 s' then [] else [''First name must be at least 3 characters long''])))
      | _ \<Rightarrow> check_other pf ''first_name'' v)"

definition check_last_name :: "platform \<Rightarrow> jsval \<Rightarrow> jsval \<times> string list" where
  "check_last_name pf v =
     (case v of
        JStr s \<Rightarrow>
          (let s' = escape (trim s) in
           (JStr s',
            (if notEmpty s' then [] else [''Last name is required'']) @
            (if isLength 2 s' then [] else [''Last name must be at least 2 characters long''])))
      | _ \<Rightarrow> check_other pf ''last_name'' v)"

definition check_email :: "platform \<Rightarrow> jsval \<Rightarrow> jsval \<times> string list" where
  "check_email pf v =
     (case v of
        JStr s \<Rightarrow>
          (case normalizeEmail pf (trim s) of
             Some e \<Rightarrow> (JStr e, if isEmail pf e then [] else [''Email is not valid''])
           | None \<Rightarrow> (JBool False, if isEmail pf ''false'' then [] else [''Email is not valid'']))
      | _ \<Rightarrow> check_other pf ''email'' v)"

definition check_message :: "platform \<Rightarrow> jsval \<Rightarrow> jsval \<times> string list" where
  "check_message pf v =
     (case v of
        JStr s \<Rightarrow>
          (let s' = escape (trim s) in
           (JStr s', if notEmpty s' then [] else [''Message is required'']))
      | _ \<Rightarrow> check_other pf ''message'' v)"

text \<open>
  The four chains in the order of the array. The result is \<^verbatim>\<open>req.body\<close> as the
  sanitizers leave it and the recorded errors, each a field with its message.
\<close>

definition validateForm :: "platform \<Rightarrow> req_body \<Rightarrow> req_body \<times> (string \<times> string) list" where
  "validateForm pf rb =
     (let (v1, m1) = check_first_name pf (rb ''first_name'');
          (v2, m2) = check_last_name pf (rb ''last_name'');
          (v3, m3) = check_email pf (rb ''email'');
          (v4, m4) = check_message pf (rb ''message'')
      in (rb(''first_name'' := v1, ''last_name'' := v2, ''email'' := v3, ''message'' := v4),
          map (Pair ''first_name'') m1 @ map (Pair ''last_name'') m2 @
          map (Pair ''email'') m3 @ map (Pair ''message'') m4))"

text \<open>\<^verbatim>\<open>errors.mapped()\<close>: for each field its first error.\<close>

definition mapped :: "(string \<times> string) list \<Rightarrow> (string \<rightharpoonup> string)" where
  "mapped errs = map_of errs"

section \<open>Configuration, calls and responses\<close>

text \<open>The entries of \<^verbatim>\<open>process.env\<close> the program reads: a string, or nothing when unset.\<close>

record config =
  RECAPTCHA_SITE_KEY :: "string option"
  RECAPTCHA_SECRET_KEY :: "string option"
  MAIL_USERNAME :: "string option"
  MAIL_PASSWORD :: "string option"
  MAILCHIMP_API_KEY :: "string option"
  MAILCHIMP_LIST_ID :: "string option"

definition env :: "string option \<Rightarrow> jsval" where
  "env e = (case e of None \<Rightarrow> JUndefined | Some s \<Rightarrow> JStr s)"

text \<open>The second argument of \<^verbatim>\<open>fetch\<close>; \<open>http_method\<close> is its member \<^verbatim>\<open>method\<close>.\<close>

record fetch_init =
  http_method :: string
  headers :: "(string \<times> string) list"
  body :: string

text \<open>
  What the program reads of a fetch Response: \<^verbatim>\<open>ok\<close>, and what \<^verbatim>\<open>json()\<close> resolves to
  (\<open>None\<close>: it rejects, the body does not parse).
\<close>

record response =
  ok :: bool
  json :: "jsval option"

text \<open>The argument of \<^verbatim>\<open>nodemailer.createTransport\<close> and the argument of \<^verbatim>\<open>sendMail\<close>.\<close>

record transport =
  service :: string
  auth_user :: jsval
  auth_pass :: jsval

record mail_options =
  mail_from :: jsval
  mail_to :: jsval
  mail_subject :: string
  mail_text :: string

text \<open>The object given to \<^verbatim>\<open>res.render\<close>; \<^verbatim>\<open>successMessage: null\<close> is \<open>None\<close>.\<close>

record render_context =
  title :: string
  errors :: "string \<rightharpoonup> string"
  formData :: req_body
  successMessage :: "string option"
  siteKey :: jsval

datatype sent = Render string render_context | SendJson jsval

datatype js_error = FetchFailed | TypeError | ReferenceError

text \<open>
  How the handler ends: it has sent a response with a status, or the promise of the
  \<^verbatim>\<open>async\<close> function rejects with an error no \<^verbatim>\<open>catch\<close> of the handler covers, and
  the handler has sent nothing.
\<close>

datatype outcome = Responded nat sent | Unhandled js_error

section \<open>Programs\<close>

text \<open>
  The handler as a tree of its effects. Three instructions are the \<^verbatim>\<open>await\<close>s: the
  handler suspends and resumes on the answer (\<open>None\<close> and \<open>False\<close>: the awaited promise
  rejects). Two are the write and the read of the global variable \<^verbatim>\<open>data\<close>, which
  run without suspending. Console output is not modelled.
\<close>

datatype prog =
    Halt outcome
  | Fetch string fetch_init "response option \<Rightarrow> prog"
  | ReadJson response "jsval option \<Rightarrow> prog"
  | SendMail transport mail_options "bool \<Rightarrow> prog"
  | SetGlobal jsval prog
  | GetGlobal "jsval option \<Rightarrow> prog"

section \<open>The handler of POST /contact-us\<close>

definition render_contact :: "config \<Rightarrow> nat \<Rightarrow> (string \<rightharpoonup> string) \<Rightarrow> req_body \<Rightarrow> outcome" where
  "render_contact cfg st errs fd =
     Responded st (Render ''contact''
       \<lparr>title = ''Contact Us'', errors = errs, formData = fd, successMessage = None,
        siteKey = env (RECAPTCHA_SITE_KEY cfg)\<rparr>)"

text \<open>Lines 226 to 232: the success response; \<^verbatim>\<open>formData: {}\<close> has no member.\<close>

definition render_success :: "config \<Rightarrow> outcome" where
  "render_success cfg =
     Responded 200 (Render ''contact''
       \<lparr>title = ''Contact Us'', errors = Map.empty, formData = (\<lambda>k. JUndefined),
        successMessage = Some ''Form submitted successfully!'',
        siteKey = env (RECAPTCHA_SITE_KEY cfg)\<rparr>)"

text \<open>Lines 186 to 222: the list subscription. Its three failures only write to the console.\<close>

definition addData :: "req_body \<Rightarrow> jsval" where
  "addData rb =
     JObj [(''members'',
       JArr [JObj [(''email_address'', rb ''email''),
                   (''status'', JStr ''subscribed''),
                   (''merge_fields'',
                      JObj [(''FNAME'', rb ''first_name''), (''LNAME'', rb ''last_name'')])]])]"

definition mailchimp_url :: "config \<Rightarrow> platform \<Rightarrow> string" where
  "mailchimp_url cfg pf =
     ''https://us6.api.mailchimp.com/3.0/lists/'' @ ToString pf (env (MAILCHIMP_LIST_ID cfg))"

definition mailchimp_options :: "config \<Rightarrow> platform \<Rightarrow> req_body \<Rightarrow> fetch_init" where
  "mailchimp_options cfg pf rb =
     \<lparr>http_method = ''POST'',
      headers = [(''Authorization'', ''apikey '' @ ToString pf (env (MAILCHIMP_API_KEY cfg))),
                 (''Content-Type'', ''application/json'')],
      body = JSON_stringify pf (addData rb)\<rparr>"

definition subscribe :: "config \<Rightarrow> platform \<Rightarrow> req_body \<Rightarrow> prog" where
  "subscribe cfg pf rb =
     (if truthy (rb ''newsletter'') then
        Fetch (mailchimp_url cfg pf) (mailchimp_options cfg pf rb)
          (\<lambda>r. case r of
                 None \<Rightarrow> Halt (render_success cfg)
               | Some mailchimpResponse \<Rightarrow>
                   ReadJson mailchimpResponse
                     (\<lambda>j. case j of
                            None \<Rightarrow> Halt (render_success cfg)
                          | Some mailchimpData \<Rightarrow>
                              (if \<not> ok mailchimpResponse then Halt (render_success cfg)
                               else Halt (render_success cfg))))
      else Halt (render_success cfg))"

text \<open>Lines 147 to 183: the mail.\<close>

definition transporter :: "config \<Rightarrow> transport" where
  "transporter cfg =
     \<lparr>service = ''gmail'', auth_user = env (MAIL_USERNAME cfg), auth_pass = env (MAIL_PASSWORD cfg)\<rparr>"

definition selectedServices :: "platform \<Rightarrow> req_body \<Rightarrow> jsval" where
  "selectedServices pf rb =
     (case rb ''service'' of
        JArr xs \<Rightarrow> JStr (join pf '', '' xs)
      | v \<Rightarrow> js_or v (JStr ''None''))"

definition userReferral :: "req_body \<Rightarrow> jsval" where
  "userReferral rb = js_or (rb ''referral'') (JStr ''Not specified'')"

definition mailOptions :: "config \<Rightarrow> platform \<Rightarrow> req_body \<Rightarrow> mail_options" where
  "mailOptions cfg pf rb =
     \<lparr>mail_from = env (MAIL_USERNAME cfg),
      mail_to = env (MAIL_USERNAME cfg),
      mail_subject =
        ''You have a new message from '' @ ToString pf (rb ''first_name'') @ '' '' @
        ToString pf (rb ''last_name''),
      mail_text =
        ''You have received a new contact form submission:'' @ [CHR 0x0A, CHR 0x0A] @
        ''    First Name: '' @ ToString pf (rb ''first_name'') @ [CHR 0x0A, CHR 0x0A] @
        ''    Last Name: '' @ ToString pf (rb ''last_name'') @ [CHR 0x0A, CHR 0x0A] @
        ''    Email: '' @ ToString pf (rb ''email'') @ [CHR 0x0A, CHR 0x0A] @
        ''    Newsletter Subscription: '' @
          (if truthy (rb ''newsletter'') then ''Yes'' else ''No'') @ [CHR 0x0A, CHR 0x0A] @
        ''    Phone: '' @ ToString pf (js_or (rb ''phone'') (JStr ''Not provided'')) @
          [CHR 0x0A, CHR 0x0A] @
        ''    Services Interested In: '' @ ToString pf (selectedServices pf rb) @
          [CHR 0x0A, CHR 0x0A] @
        ''    How They Found Us: '' @ ToString pf (userReferral rb) @ [CHR 0x0A, CHR 0x0A] @
        ''    Message: '' @ ToString pf (rb ''message'')\<rparr>"

definition send_email :: "config \<Rightarrow> platform \<Rightarrow> req_body \<Rightarrow> prog" where
  "send_email cfg pf rb =
     SendMail (transporter cfg) (mailOptions cfg pf rb)
       (\<lambda>sent. if sent then subscribe cfg pf rb
               else Halt (Responded 500 (SendJson (JObj [(''error'', JStr ''Failed to send email'')]))))"

text \<open>
  Line 136: \<^verbatim>\<open>!data.success || data.score < 0.5 || data.action !== "submit"\<close>. Each
  \<^verbatim>\<open>data\<close> is a read of the global variable; \<^verbatim>\<open>||\<close> evaluates its right side only
  when the left one is false.
\<close>

definition data_member :: "string \<Rightarrow> (jsval \<Rightarrow> prog) \<Rightarrow> prog" where
  "data_member k cont =
     GetGlobal (\<lambda>d. case d of
                      None \<Rightarrow> Halt (Unhandled ReferenceError)
                    | Some v \<Rightarrow>
                        (case get_member v k of
                           None \<Rightarrow> Halt (Unhandled TypeError)
                         | Some x \<Rightarrow> cont x))"

definition captcha_failed :: "config \<Rightarrow> req_body \<Rightarrow> outcome" where
  "captcha_failed cfg rb =
     render_contact cfg 403 [''captcha'' \<mapsto> ''reCAPTCHA failed. Please try again.''] rb"

definition check_score :: "config \<Rightarrow> platform \<Rightarrow> req_body \<Rightarrow> prog" where
  "check_score cfg pf rb =
     data_member ''success'' (\<lambda>success.
       if \<not> truthy success then Halt (captcha_failed cfg rb)
       else data_member ''score'' (\<lambda>score.
         if js_less_num pf score (1 / 2) then Halt (captcha_failed cfg rb)
         else data_member ''action'' (\<lambda>action.
           if action \<noteq> JStr ''submit'' then Halt (captcha_failed cfg rb)
           else send_email cfg pf rb)))"

text \<open>
  Lines 106 to 134: the verification. The first \<^verbatim>\<open>fetch\<close> stands before the \<^verbatim>\<open>try\<close>, so
  its rejection leaves the handler; the second \<^verbatim>\<open>fetch\<close> and \<^verbatim>\<open>response.json()\<close> stand
  inside, and \<^verbatim>\<open>data = ...\<close>, with no declaration, assigns the global variable. Line 122
  reads it back for the console, still inside the \<^verbatim>\<open>try\<close>: a read of a variable that
  does not exist would be caught there.
\<close>

definition verifyUrl :: string where
  "verifyUrl = ''https://www.google.com/recaptcha/api/siteverify''"

definition verify_init :: "config \<Rightarrow> platform \<Rightarrow> jsval \<Rightarrow> fetch_init" where
  "verify_init cfg pf token =
     \<lparr>http_method = ''POST'',
      headers = [(''Content-Type'', ''application/x-www-form-urlencoded'')],
      body = ''secret='' @ ToString pf (env (RECAPTCHA_SECRET_KEY cfg)) @
             ''&response='' @ ToString pf token\<rparr>"

definition captcha_error :: "config \<Rightarrow> req_body \<Rightarrow> outcome" where
  "captcha_error cfg rb =
     render_contact cfg 500 [''captcha'' \<mapsto> ''Error verifying reCAPTCHA. Please try again.''] rb"

definition verify :: "config \<Rightarrow> platform \<Rightarrow> req_body \<Rightarrow> jsval \<Rightarrow> prog" where
  "verify cfg pf rb token =
     Fetch verifyUrl (verify_init cfg pf token)
       (\<lambda>r. case r of
              None \<Rightarrow> Halt (Unhandled FetchFailed)
            | Some response \<Rightarrow>
                Fetch verifyUrl (verify_init cfg pf token)
                  (\<lambda>r'. case r' of
                          None \<Rightarrow> Halt (captcha_error cfg rb)
                        | Some response' \<Rightarrow>
                            ReadJson response'
                              (\<lambda>j. case j of
                                     None \<Rightarrow> Halt (captcha_error cfg rb)
                                   | Some d \<Rightarrow>
                                       SetGlobal d
                                         (GetGlobal
                                            (\<lambda>logged. case logged of
                                                 None \<Rightarrow> Halt (captcha_error cfg rb)
                                               | Some x \<Rightarrow> check_score cfg pf rb)))))"

text \<open>Lines 66 to 103: the handler after the middleware, from the errors it recorded.\<close>

definition missing_token :: "config \<Rightarrow> req_body \<Rightarrow> outcome" where
  "missing_token cfg rb =
     render_contact cfg 400 [''captcha'' \<mapsto> ''Missing reCAPTCHA token. Please try again.''] rb"

definition handler :: "config \<Rightarrow> platform \<Rightarrow> req_body \<Rightarrow> (string \<times> string) list \<Rightarrow> prog" where
  "handler cfg pf rb errs =
     (if errs \<noteq> [] then Halt (render_contact cfg 400 (mapped errs) rb)
      else
        (let token = rb ''g-recaptcha-response'' in
         if \<not> truthy token then Halt (missing_token cfg rb)
         else verify cfg pf rb token))"

text \<open>The route: \<^verbatim>\<open>validateForm\<close>, then the handler on the request it leaves.\<close>

definition post_contact_us :: "config \<Rightarrow> platform \<Rightarrow> req_body \<Rightarrow> prog" where
  "post_contact_us cfg pf raw =
     (let (rb, errs) = validateForm pf raw in handler cfg pf rb errs)"

section \<open>Running a program\<close>

text \<open>
  The outside of one request: the answers to its successive \<^verbatim>\<open>fetch\<close> calls and to its
  successive \<^verbatim>\<open>sendMail\<close> calls. A call with no answer left never returns.
\<close>

record world =
  http :: "response option list"
  smtp :: "bool list"

datatype call = HttpCall string fetch_init | MailCall transport mail_options

text \<open>The global object: the variable \<^verbatim>\<open>data\<close>, \<open>None\<close> while no assignment has created it.\<close>

record globals =
  data :: "jsval option"

text \<open>
  One request run alone to its end: the outcome and the outbound calls, in order.
  \<open>None\<close>: an awaited call never answers and the request hangs.
\<close>

primrec run :: "prog \<Rightarrow> world \<Rightarrow> globals \<Rightarrow> (outcome \<times> call list) option" where
  "run (Halt out) w g = Some (out, [])"
| "run (Fetch u i k) w g =
     (case http w of
        [] \<Rightarrow> None
      | a # as \<Rightarrow> map_option (\<lambda>(out, cs). (out, HttpCall u i # cs)) (run (k a) (w\<lparr>http := as\<rparr>) g))"
| "run (ReadJson r k) w g = run (k (json r)) w g"
| "run (SendMail t m k) w g =
     (case smtp w of
        [] \<Rightarrow> None
      | a # as \<Rightarrow> map_option (\<lambda>(out, cs). (out, MailCall t m # cs)) (run (k a) (w\<lparr>smtp := as\<rparr>) g))"
| "run (SetGlobal v p) w g = run p w (g\<lparr>data := Some v\<rparr>)"
| "run (GetGlobal k) w g = run (k (data g)) w g"

text \<open>The calls of a run that go to the verification endpoint.\<close>

fun is_verification :: "call \<Rightarrow> bool" where
  "is_verification (HttpCall u i) = (u = verifyUrl)"
| "is_verification (MailCall t m) = False"

text \<open>
  Line 136 is false on the verifier's answer \<open>d\<close> and raises nothing: the handler goes on
  to the mail.
\<close>

definition accepted :: "platform \<Rightarrow> jsval \<Rightarrow> bool" where
  "accepted pf d =
     (case get_member d ''success'' of
        None \<Rightarrow> False
      | Some success \<Rightarrow>
          truthy success \<and>
          (case get_member d ''score'' of
             None \<Rightarrow> False
           | Some score \<Rightarrow>
               \<not> js_less_num pf score (1 / 2) \<and> get_member d ''action'' = Some (JStr ''submit'')))"

section \<open>Requests in flight together\<close>

text \<open>
  Node runs one piece of JavaScript at a time: a handler runs without interruption
  until it reaches an \<^verbatim>\<open>await\<close>, and other handlers run while it waits. \<open>sync\<close> is that
  uninterrupted piece, on the one global object all handlers share.
\<close>

primrec sync :: "prog \<Rightarrow> globals \<Rightarrow> prog \<times> globals" where
  "sync (Halt out) g = (Halt out, g)"
| "sync (Fetch u i k) g = (Fetch u i k, g)"
| "sync (ReadJson r k) g = (ReadJson r k, g)"
| "sync (SendMail t m k) g = (SendMail t m k, g)"
| "sync (SetGlobal v p) g = sync p (g\<lparr>data := Some v\<rparr>)"
| "sync (GetGlobal k) g = sync (k (data g)) g"

text \<open>
  At an \<^verbatim>\<open>await\<close>: the call goes out and the answer selects how the handler will resume.
  \<open>None\<close>: the program is not at an \<^verbatim>\<open>await\<close>, or the call has no answer.
\<close>

fun deliver :: "prog \<Rightarrow> world \<Rightarrow> (prog \<times> world \<times> call list) option" where
  "deliver (Fetch u i k) w =
     (case http w of [] \<Rightarrow> None | a # as \<Rightarrow> Some (k a, w\<lparr>http := as\<rparr>, [HttpCall u i]))"
| "deliver (ReadJson r k) w = Some (k (json r), w, [])"
| "deliver (SendMail t m k) w =
     (case smtp w of [] \<Rightarrow> None | a # as \<Rightarrow> Some (k a, w\<lparr>smtp := as\<rparr>, [MailCall t m]))"
| "deliver p w = None"

text \<open>
  A request in flight: what is left of its handler, the answers its outside still
  holds, and the calls it has made.
\<close>

record task =
  code :: prog
  answers :: world
  calls :: "call list"

text \<open>One turn of a request: its handler runs up to the next \<^verbatim>\<open>await\<close> and takes the answer.\<close>

definition turn :: "task \<Rightarrow> globals \<Rightarrow> task \<times> globals" where
  "turn t g =
     (let (p, g') = sync (code t) g in
      case deliver p (answers t) of
        None \<Rightarrow> (t\<lparr>code := p\<rparr>, g')
      | Some (p', w', cs) \<Rightarrow> (\<lparr>code = p', answers = w', calls = calls t @ cs\<rparr>, g'))"

text \<open>
  A schedule names, turn by turn, the request that runs next; every interleaving of the
  requests at their \<^verbatim>\<open>await\<close>s is a schedule.
\<close>

fun sched :: "nat list \<Rightarrow> task list \<times> globals \<Rightarrow> task list \<times> globals" where
  "sched [] s = s"
| "sched (i # is) (ts, g) =
     (if i < length ts then
        (let (t', g') = turn (ts ! i) g in sched is (ts[i := t'], g'))
      else sched is (ts, g))"

definition arrive :: "config \<Rightarrow> platform \<Rightarrow> req_body \<Rightarrow> world \<Rightarrow> task" where
  "arrive cfg pf raw w = \<lparr>code = post_contact_us cfg pf raw, answers = w, calls = []\<rparr>"

text \<open>A request after \<open>n\<close> turns with no other request in flight.\<close>

primrec alone :: "nat \<Rightarrow> task \<Rightarrow> task" where
  "alone 0 t = t"
| "alone (Suc n) t = alone n (fst (turn t \<lparr>data = None\<rparr>))"

text \<open>What is left of a request in flight, run alone to its end, after the calls it has made.\<close>

definition finish :: "task \<Rightarrow> globals \<Rightarrow> (outcome \<times> call list) option" where
  "finish t g = map_option (\<lambda>(out, cs). (out, calls t @ cs)) (run (code t) (answers t) g)"

text \<open>
  \<open>own_data p m\<close>: on every path of \<open>p\<close>, a read of the global \<^verbatim>\<open>data\<close> comes after a
  write of \<open>p\<close> itself with no \<^verbatim>\<open>await\<close> between the two; \<open>m\<close> is the value \<open>p\<close> has
  written since its last \<^verbatim>\<open>await\<close>, if any.
\<close>

primrec own_data :: "prog \<Rightarrow> jsval option \<Rightarrow> bool" where
  "own_data (Halt out) m = True"
| "own_data (Fetch u i k) m = (\<forall>a. own_data (k a) None)"
| "own_data (ReadJson r k) m = (\<forall>a. own_data (k a) None)"
| "own_data (SendMail t ml k) m = (\<forall>a. own_data (k a) None)"
| "own_data (SetGlobal v p) m = own_data p (Some v)"
| "own_data (GetGlobal k) m = (case m of None \<Rightarrow> False | Some v \<Rightarrow> own_data (k (Some v)) m)"

section \<open>Sample inputs\<close>

definition sample_platform :: platform where
  "sample_platform =
     \<lparr>ToNumber_other = (\<lambda>v. NaN), ToString_other = (\<lambda>v. ''[object Object]''),
      JSON_stringify = (\<lambda>v. ''{}''), normalizeEmail = (\<lambda>s. Some s),
      isEmail = (\<lambda>s. CHR ''@'' \<in> set s),
      check_other = (\<lambda>f v. (v, [''Invalid value'']))\<rparr>"

definition sample_config :: config where
  "sample_config =
     \<lparr>RECAPTCHA_SITE_KEY = Some ''site'', RECAPTCHA_SECRET_KEY = Some ''secret'',
      MAIL_USERNAME = Some ''owner@example.com'', MAIL_PASSWORD = Some ''pw'',
      MAILCHIMP_API_KEY = Some ''key'', MAILCHIMP_LIST_ID = Some ''list1''\<rparr>"

text \<open>A submission with its four checked fields valid and no token.\<close>

definition sample_form :: req_body where
  "sample_form =
     (\<lambda>k. JUndefined)
       (''first_name'' := JStr ''Alice'', ''last_name'' := JStr ''Poon'',
        ''email'' := JStr ''alice@example.com'', ''message'' := JStr ''Hello'')"

definition sample_submission :: req_body where
  "sample_submission = sample_form(''g-recaptcha-response'' := JStr ''tok'')"

definition sample_empty_token :: req_body where
  "sample_empty_token = sample_form(''g-recaptcha-response'' := JStr [])"

text \<open>Verifier answers: one that line 136 lets through, one with a low score.\<close>

definition human :: response where
  "human =
     \<lparr>ok = True,
      json = Some (JObj [(''success'', JBool True), (''score'', JNum (Fin (9 / 10))),
                         (''action'', JStr ''submit'')])\<rparr>"

definition bot :: response where
  "bot =
     \<lparr>ok = True,
      json = Some (JObj [(''success'', JBool True), (''score'', JNum (Fin (3 / 10))),
                         (''action'', JStr ''submit'')])\<rparr>"

definition no_globals :: globals where
  "no_globals = \<lparr>data = None\<rparr>"


text \<open>A submission whose first name is the one character \<^verbatim>\<open>&\<close>.\<close>

definition sample_ampersand :: req_body where
  "sample_ampersand = sample_submission(''first_name'' := JStr ''&'')"

text \<open>A submission with spaces around the first name, an ampersand in it, and no message.\<close>

definition sample_untrimmed :: req_body where
  "sample_untrimmed = sample_form(''first_name'' := JStr '' Tom & Ann '', ''message'' := JStr [])"

text \<open>Two requests in flight together: the verifier lets the first through and not the second.\<close>

definition human_world :: world where
  "human_world = \<lparr>http = [Some human, Some human], smtp = [True]\<rparr>"

definition bot_world :: world where
  "bot_world = \<lparr>http = [Some human, Some bot], smtp = [True]\<rparr>"

definition sample_pool :: "task list" where
  "sample_pool =
     map2 (arrive sample_config sample_platform)
       [sample_submission, sample_submission] [human_world, bot_world]"


section \<open>Properties of the middleware\<close>

lemmas chain_defs =
  validateForm_def check_first_name_def check_last_name_def check_email_def check_message_def
  trim_def ltrim_def rtrim_def escape_def escape_char_def whitespace_def notEmpty_def isLength_def

lemma validateForm_other_key:
  "k \<notin> {''first_name'', ''last_name'', ''email'', ''message''} \<Longrightarrow>
   fst (validateForm pf raw) k = raw k"
  by (simp add: validateForm_def split: prod.splits)

lemma validateForm_token:
  "fst (validateForm pf raw) ''g-recaptcha-response'' = raw ''g-recaptcha-response''"
  by (simp add: validateForm_other_key)


lemma validateForm_first_name:
  "raw ''first_name'' = JStr s \<Longrightarrow>
   fst (validateForm pf raw) ''first_name'' = JStr (escape (trim s))"
  by (simp add: validateForm_def check_first_name_def split_def Let_def)

lemma validateForm_first_name_short:
  assumes "raw ''first_name'' = JStr s" and "length (escape (trim s)) < 3"
  shows "mapped (snd (validateForm pf raw)) ''first_name'' =
           Some (if escape (trim s) = [] then ''First name is required''
                 else ''First name must be at least 3 characters long'')"
  using assms
  by (simp add: validateForm_def check_first_name_def split_def Let_def mapped_def notEmpty_def
      isLength_def)

lemma length_trim: "length (trim s) \<le> length s"
proof -
  have d: "length (dropWhile P xs) \<le> length xs" for P and xs :: string
    by (induction xs) simp_all
  have "length (trim s) \<le> length (ltrim s)"
    unfolding trim_def rtrim_def using d [of whitespace "rev (ltrim s)"] by simp
  also have "\<dots> \<le> length s"
    unfolding ltrim_def by (rule d)
  finally show ?thesis .
qed

lemma escape_grows: "length s \<le> length (escape s)"
  by (induction s) (simp_all add: escape_def escape_char_def)

lemma post_contact_us_unfold:
  "post_contact_us cfg pf raw =
     handler cfg pf (fst (validateForm pf raw)) (snd (validateForm pf raw))"
  by (simp add: post_contact_us_def split: prod.splits)

lemma sample_form_valid: "validateForm sample_platform sample_form = (sample_form, [])"
  by (simp add: chain_defs sample_form_def sample_platform_def)

lemma sample_submission_valid:
  "validateForm sample_platform sample_submission = (sample_submission, [])"
  by (simp add: chain_defs sample_submission_def sample_form_def sample_platform_def fun_eq_iff)

lemma sample_empty_token_valid:
  "validateForm sample_platform sample_empty_token = (sample_empty_token, [])"
  by (simp add: chain_defs sample_empty_token_def sample_form_def sample_platform_def fun_eq_iff)


lemma sample_ampersand_valid:
  "validateForm sample_platform sample_ampersand =
     (sample_ampersand(''first_name'' := JStr ''&amp;''), [])"
  by (simp add: chain_defs sample_ampersand_def sample_submission_def sample_form_def
      sample_platform_def fun_eq_iff)

lemma sample_untrimmed_invalid:
  "validateForm sample_platform sample_untrimmed =
     (sample_untrimmed(''first_name'' := JStr ''Tom &amp; Ann''),
      [(''message'', ''Message is required'')])"
  by (simp add: chain_defs sample_untrimmed_def sample_form_def sample_platform_def fun_eq_iff)

lemma sample_submission_members:
  "sample_submission ''g-recaptcha-response'' = JStr ''tok''"
  "sample_submission ''newsletter'' = JUndefined"
  by (simp_all add: sample_submission_def sample_form_def)

section \<open>The stages of the handler, run\<close>

lemma run_handler_invalid:
  "errs \<noteq> [] \<Longrightarrow>
   run (handler cfg pf rb errs) w g = Some (render_contact cfg 400 (mapped errs) rb, [])"
  by (simp add: handler_def)

lemma run_handler_no_token:
  "\<not> truthy (rb ''g-recaptcha-response'') \<Longrightarrow>
   run (handler cfg pf rb []) w g = Some (missing_token cfg rb, [])"
  by (simp add: handler_def)

lemma run_handler_token:
  "truthy (rb ''g-recaptcha-response'') \<Longrightarrow>
   run (handler cfg pf rb []) w g = run (verify cfg pf rb (rb ''g-recaptcha-response'')) w g"
  by (simp add: handler_def)

lemma run_verify_first_rejects:
  "http w = None # rest \<Longrightarrow>
   run (verify cfg pf rb token) w g =
     Some (Unhandled FetchFailed, [HttpCall verifyUrl (verify_init cfg pf token)])"
  by (simp add: verify_def)

lemma run_verify_second_rejects:
  "http w = Some r1 # None # rest \<Longrightarrow>
   run (verify cfg pf rb token) w g =
     Some (captcha_error cfg rb,
           [HttpCall verifyUrl (verify_init cfg pf token),
            HttpCall verifyUrl (verify_init cfg pf token)])"
  by (simp add: verify_def)

lemma run_verify_json_rejects:
  "http w = Some r1 # Some r2 # rest \<Longrightarrow> json r2 = None \<Longrightarrow>
   run (verify cfg pf rb token) w g =
     Some (captcha_error cfg rb,
           [HttpCall verifyUrl (verify_init cfg pf token),
            HttpCall verifyUrl (verify_init cfg pf token)])"
  by (simp add: verify_def)

lemma run_verify_answered:
  "http w = Some r1 # Some r2 # rest \<Longrightarrow> json r2 = Some d \<Longrightarrow>
   run (verify cfg pf rb token) w g =
     map_option (\<lambda>(out, cs). (out, HttpCall verifyUrl (verify_init cfg pf token) #
                                    HttpCall verifyUrl (verify_init cfg pf token) # cs))
       (run (check_score cfg pf rb) (w\<lparr>http := rest\<rparr>) (g\<lparr>data := Some d\<rparr>))"
  by (simp add: verify_def option.map_comp comp_def split_def)

lemma run_check_score_accepted:
  "data g = Some d \<Longrightarrow> accepted pf d \<Longrightarrow>
   run (check_score cfg pf rb) w g = run (send_email cfg pf rb) w g"
  by (auto simp add: check_score_def data_member_def accepted_def split: option.splits)


lemma run_check_score_null:
  "data g = Some d \<Longrightarrow> d = JNull \<or> d = JUndefined \<Longrightarrow>
   run (check_score cfg pf rb) w g = Some (Unhandled TypeError, [])"
  by (auto simp add: check_score_def data_member_def)


lemma run_send_email_sent:
  "smtp w = True # rest \<Longrightarrow>
   run (send_email cfg pf rb) w g =
     map_option (\<lambda>(out, cs). (out, MailCall (transporter cfg) (mailOptions cfg pf rb) # cs))
       (run (subscribe cfg pf rb) (w\<lparr>smtp := rest\<rparr>) g)"
  by (simp add: send_email_def)


lemma run_subscribe_not_opted_in:
  "\<not> truthy (rb ''newsletter'') \<Longrightarrow>
   run (subscribe cfg pf rb) w g = Some (render_success cfg, [])"
  by (simp add: subscribe_def)

lemma accepted_human: "json human = Some d \<Longrightarrow> accepted pf d"
  by (auto simp add: human_def accepted_def js_less_num_def)


text \<open>
  A submission that passes the field checks, carries a token, and whose verifier answer
  line 136 lets through: two verification calls have gone out and the mail is next.
\<close>

lemma run_accepted_submission:
  assumes "snd (validateForm pf raw) = []"
      and "truthy (raw ''g-recaptcha-response'')"
      and "http w = Some r1 # Some r2 # rest"
      and "json r2 = Some d"
      and "accepted pf d"
  shows "run (post_contact_us cfg pf raw) w g =
           map_option (\<lambda>(out, cs). (out,
               HttpCall verifyUrl (verify_init cfg pf (raw ''g-recaptcha-response'')) #
               HttpCall verifyUrl (verify_init cfg pf (raw ''g-recaptcha-response'')) # cs))
             (run (send_email cfg pf (fst (validateForm pf raw))) (w\<lparr>http := rest\<rparr>)
                (g\<lparr>data := Some d\<rparr>))"
proof -
  let ?rb = "fst (validateForm pf raw)"
  have "run (check_score cfg pf ?rb) (w\<lparr>http := rest\<rparr>) (g\<lparr>data := Some d\<rparr>) =
        run (send_email cfg pf ?rb) (w\<lparr>http := rest\<rparr>) (g\<lparr>data := Some d\<rparr>)"
    using assms(5) by (simp add: run_check_score_accepted)
  then show ?thesis
    using assms(1-4)
    by (simp add: post_contact_us_unfold run_handler_token validateForm_token run_verify_answered)
qed

section \<open>The missing token\<close>

text \<open>
  Claim C4. A submission that passes the field checks and has no token member gets
  status 400 with the error \<open>captcha\<close>, "Missing reCAPTCHA token. Please try again.",
  and the run makes no outbound call at all: not to the verifier, not to the mail
  relay, not to the list API. This holds whatever the outside would have answered.
\<close>

theorem missing_token_rejected_before_any_call:
  assumes "snd (validateForm pf raw) = []"
      and "raw ''g-recaptcha-response'' = JUndefined"
  shows "run (post_contact_us cfg pf raw) w g =
           Some (Responded 400 (Render ''contact''
                   \<lparr>title = ''Contact Us'',
                    errors = [''captcha'' \<mapsto> ''Missing reCAPTCHA token. Please try again.''],
                    formData = fst (validateForm pf raw),
                    successMessage = None,
                    siteKey = env (RECAPTCHA_SITE_KEY cfg)\<rparr>), [])"
proof -
  have "\<not> truthy (fst (validateForm pf raw) ''g-recaptcha-response'')"
    using assms(2) by (simp add: validateForm_token)
  then show ?thesis
    using assms(1)
    by (simp add: post_contact_us_unfold run_handler_no_token missing_token_def render_contact_def)
qed

theorem missing_token_rejected_before_any_call_witness:
  "snd (validateForm sample_platform sample_form) = [] \<and>
   sample_form ''g-recaptcha-response'' = JUndefined \<and>
   run (post_contact_us sample_config sample_platform sample_form)
       \<lparr>http = [], smtp = []\<rparr> no_globals =
     Some (Responded 400 (Render ''contact''
             \<lparr>title = ''Contact Us'',
              errors = [''captcha'' \<mapsto> ''Missing reCAPTCHA token. Please try again.''],
              formData = sample_form,
              successMessage = None,
              siteKey = JStr ''site''\<rparr>), [])"
proof -
  have v: "snd (validateForm sample_platform sample_form) = []"
    by (simp add: sample_form_valid)
  have t: "sample_form ''g-recaptcha-response'' = JUndefined"
    by (simp add: sample_form_def)
  show ?thesis
    using v t
      missing_token_rejected_before_any_call [OF v t, of sample_config "\<lparr>http = [], smtp = []\<rparr>" no_globals]
    by (simp add: sample_form_valid sample_config_def env_def)
qed

text \<open>
  Claim C10. A token member that is present and is the empty string is treated as an
  absent one: the same 400 response with the missing-token message, and no outbound
  call.
\<close>

theorem empty_token_rejected_like_absent:
  assumes "snd (validateForm pf raw) = []"
      and "raw ''g-recaptcha-response'' = JStr []"
  shows "run (post_contact_us cfg pf raw) w g =
           Some (Responded 400 (Render ''contact''
                   \<lparr>title = ''Contact Us'',
                    errors = [''captcha'' \<mapsto> ''Missing reCAPTCHA token. Please try again.''],
                    formData = fst (validateForm pf raw),
                    successMessage = None,
                    siteKey = env (RECAPTCHA_SITE_KEY cfg)\<rparr>), [])"
proof -
  have "\<not> truthy (fst (validateForm pf raw) ''g-recaptcha-response'')"
    using assms(2) by (simp add: validateForm_token)
  then show ?thesis
    using assms(1)
    by (simp add: post_contact_us_unfold run_handler_no_token missing_token_def render_contact_def)
qed

theorem empty_token_rejected_like_absent_witness:
  "snd (validateForm sample_platform sample_empty_token) = [] \<and>
   sample_empty_token ''g-recaptcha-response'' = JStr [] \<and>
   run (post_contact_us sample_config sample_platform sample_empty_token)
       \<lparr>http = [], smtp = []\<rparr> no_globals =
     Some (Responded 400 (Render ''contact''
             \<lparr>title = ''Contact Us'',
              errors = [''captcha'' \<mapsto> ''Missing reCAPTCHA token. Please try again.''],
              formData = sample_empty_token,
              successMessage = None,
              siteKey = JStr ''site''\<rparr>), [])"
proof -
  have v: "snd (validateForm sample_platform sample_empty_token) = []"
    by (simp add: sample_empty_token_valid)
  have t: "sample_empty_token ''g-recaptcha-response'' = JStr []"
    by (simp add: sample_empty_token_def)
  show ?thesis
    using v t
      empty_token_rejected_like_absent [OF v t, of sample_config "\<lparr>http = [], smtp = []\<rparr>" no_globals]
    by (simp add: sample_empty_token_valid sample_config_def env_def)
qed

section \<open>The verification calls\<close>

lemma mailchimp_url_not_verifyUrl: "mailchimp_url cfg pf \<noteq> verifyUrl"
  by (simp add: mailchimp_url_def verifyUrl_def)

lemma run_subscribe_calls:
  "run (subscribe cfg pf rb) w g = Some (out, cs) \<Longrightarrow> filter is_verification cs = []"
  by (auto simp add: subscribe_def mailchimp_url_not_verifyUrl
      split: if_splits list.splits option.splits)

lemma run_send_email_calls:
  "run (send_email cfg pf rb) w g = Some (out, cs) \<Longrightarrow> filter is_verification cs = []"
  by (auto simp add: send_email_def split: if_splits list.splits dest: run_subscribe_calls)

lemma run_check_score_calls:
  "run (check_score cfg pf rb) w g = Some (out, cs) \<Longrightarrow> filter is_verification cs = []"
  by (auto simp add: check_score_def data_member_def split: if_splits option.splits
      dest: run_send_email_calls)

text \<open>
  Whenever the first verification call is answered and the request comes to an end, the
  verification endpoint has been called twice; when the first call rejects, once.
\<close>

lemma run_verify_calls:
  assumes "http w = Some r1 # rest"
      and "run (verify cfg pf rb token) w g = Some (out, cs)"
  shows "length (filter is_verification cs) = 2"
  using assms
  by (auto simp add: verify_def split: list.splits option.splits dest: run_check_score_calls)

lemma verification_calls_of_a_submission:
  assumes "snd (validateForm pf raw) = []"
      and "truthy (raw ''g-recaptcha-response'')"
      and "http w = Some r1 # rest"
      and "run (post_contact_us cfg pf raw) w g = Some (out, cs)"
  shows "length (filter is_verification cs) = 2"
  using assms
  by (simp add: post_contact_us_unfold run_handler_token validateForm_token run_verify_calls)

text \<open>
  Claim C2 asks for exactly one call to the verification endpoint per submission. On the
  sample submission, which passes the field checks and carries a token, with a verifier
  that answers, the run calls the verification endpoint two times: once at line 108 and
  once more at line 115.
\<close>

theorem verification_endpoint_called_twice:
  "run (post_contact_us sample_config sample_platform sample_submission)
       \<lparr>http = [Some human, Some human], smtp = [True]\<rparr> no_globals =
     Some (render_success sample_config,
           [HttpCall verifyUrl (verify_init sample_config sample_platform (JStr ''tok'')),
            HttpCall verifyUrl (verify_init sample_config sample_platform (JStr ''tok'')),
            MailCall (transporter sample_config)
              (mailOptions sample_config sample_platform sample_submission)]) \<and>
   length (filter is_verification
     [HttpCall verifyUrl (verify_init sample_config sample_platform (JStr ''tok'')),
      HttpCall verifyUrl (verify_init sample_config sample_platform (JStr ''tok'')),
      MailCall (transporter sample_config)
        (mailOptions sample_config sample_platform sample_submission)]) = 2"
proof -
  have n: "\<not> truthy (sample_submission ''newsletter'')"
    by (simp add: sample_submission_members)
  have "run (send_email sample_config sample_platform sample_submission)
          \<lparr>http = [], smtp = [True]\<rparr> g =
        Some (render_success sample_config,
              [MailCall (transporter sample_config)
                 (mailOptions sample_config sample_platform sample_submission)])" for g
    using n by (simp add: run_send_email_sent run_subscribe_not_opted_in)
  then show ?thesis
    using run_accepted_submission [of sample_platform sample_submission
        "\<lparr>http = [Some human, Some human], smtp = [True]\<rparr>" human human "[]"
        "the (json human)" sample_config no_globals]
    by (simp add: sample_submission_valid sample_submission_members accepted_human human_def)
qed

text \<open>
  Claim C3 asks for a 500 response with a captcha error whenever the verification call
  fails. On the sample submission, when the first \<^verbatim>\<open>fetch\<close> rejects, the handler sends
  no response: the rejection leaves the \<^verbatim>\<open>async\<close> function, since line 108 stands
  before the \<^verbatim>\<open>try\<close>. No mail is sent on that path.
\<close>

theorem first_fetch_rejection_unhandled:
  "run (post_contact_us sample_config sample_platform sample_submission)
       \<lparr>http = [None], smtp = []\<rparr> no_globals =
     Some (Unhandled FetchFailed,
           [HttpCall verifyUrl (verify_init sample_config sample_platform (JStr ''tok''))])"
  by (simp add: post_contact_us_unfold sample_submission_valid run_handler_token
      sample_submission_members run_verify_first_rejects)

text \<open>
  The failures the \<^verbatim>\<open>try\<close> does cover, the second \<^verbatim>\<open>fetch\<close> and \<^verbatim>\<open>response.json()\<close>, give
  the 500 response with the captcha error and the echoed request, and no mail.
\<close>

lemma covered_verification_failure:
  assumes "snd (validateForm pf raw) = []"
      and "truthy (raw ''g-recaptcha-response'')"
      and "http w = Some r1 # None # rest \<or> (\<exists>r2. http w = Some r1 # Some r2 # rest \<and> json r2 = None)"
  shows "run (post_contact_us cfg pf raw) w g =
           Some (Responded 500 (Render ''contact''
                   \<lparr>title = ''Contact Us'',
                    errors = [''captcha'' \<mapsto> ''Error verifying reCAPTCHA. Please try again.''],
                    formData = fst (validateForm pf raw),
                    successMessage = None,
                    siteKey = env (RECAPTCHA_SITE_KEY cfg)\<rparr>),
                 [HttpCall verifyUrl (verify_init cfg pf (raw ''g-recaptcha-response'')),
                  HttpCall verifyUrl (verify_init cfg pf (raw ''g-recaptcha-response''))])"
  using assms
  by (auto simp add: post_contact_us_unfold run_handler_token validateForm_token
      run_verify_second_rejects run_verify_json_rejects captcha_error_def render_contact_def)

section \<open>The verifier's verdict\<close>



section \<open>The mail and the list subscription\<close>





section \<open>What the field checks let through and what the form echoes\<close>

text \<open>
  A first name is measured after \<^verbatim>\<open>trim()\<close> and \<^verbatim>\<open>escape()\<close>. One that is still shorter
  than 3 characters then is rejected with status 400 and cited under \<open>first_name\<close>,
  whatever the other fields hold.
\<close>

lemma short_first_name_rejected:
  assumes "raw ''first_name'' = JStr s" and "length (escape (trim s)) < 3"
  shows "run (post_contact_us cfg pf raw) w g =
           Some (render_contact cfg 400 (mapped (snd (validateForm pf raw)))
                   (fst (validateForm pf raw)), [])"
proof -
  have "mapped (snd (validateForm pf raw)) ''first_name'' \<noteq> None"
    using validateForm_first_name_short [of raw s pf] assms by simp
  then have "snd (validateForm pf raw) \<noteq> []"
    by (auto simp add: mapped_def)
  then show ?thesis
    by (simp add: post_contact_us_unfold run_handler_invalid)
qed

text \<open>
  Claim C9 asks that every first name shorter than 3 characters be rejected and cited.
  The first name \<^verbatim>\<open>&\<close> has one character; \<^verbatim>\<open>escape()\<close> makes it the five characters
  \<^verbatim>\<open>&amp;\<close> before \<^verbatim>\<open>isLength({ min: 3 })\<close> measures it, so the field checks record no
  error, and with a token and a verifier that lets it through the submission is
  answered 200 and mailed.
\<close>

theorem ampersand_first_name_accepted:
  "sample_ampersand ''first_name'' = JStr ''&'' \<and>
   snd (validateForm sample_platform sample_ampersand) = [] \<and>
   run (post_contact_us sample_config sample_platform sample_ampersand)
       \<lparr>http = [Some human, Some human], smtp = [True]\<rparr> no_globals =
     Some (Responded 200 (Render ''contact''
             \<lparr>title = ''Contact Us'',
              errors = Map.empty,
              formData = (\<lambda>k. JUndefined),
              successMessage = Some ''Form submitted successfully!'',
              siteKey = JStr ''site''\<rparr>),
           [HttpCall verifyUrl (verify_init sample_config sample_platform (JStr ''tok'')),
            HttpCall verifyUrl (verify_init sample_config sample_platform (JStr ''tok'')),
            MailCall (transporter sample_config)
              (mailOptions sample_config sample_platform
                 (sample_ampersand(''first_name'' := JStr ''&amp;'')))])"
proof -
  let ?rb = "sample_ampersand(''first_name'' := JStr ''&amp;'')"
  have f: "sample_ampersand ''first_name'' = JStr ''&''"
    by (simp add: sample_ampersand_def)
  have n: "\<not> truthy (?rb ''newsletter'')"
    by (simp add: sample_ampersand_def sample_submission_def sample_form_def)
  have t: "sample_ampersand ''g-recaptcha-response'' = JStr ''tok''"
    by (simp add: sample_ampersand_def sample_submission_def)
  have "run (send_email sample_config sample_platform ?rb)
          \<lparr>http = [], smtp = [True]\<rparr> g =
        Some (render_success sample_config,
              [MailCall (transporter sample_config)
                 (mailOptions sample_config sample_platform ?rb)])" for g
    using n by (simp add: run_send_email_sent run_subscribe_not_opted_in)
  then show ?thesis
    using f run_accepted_submission [of sample_platform sample_ampersand
        "\<lparr>http = [Some human, Some human], smtp = [True]\<rparr>" human human "[]"
        "the (json human)" sample_config no_globals]
    by (simp add: sample_ampersand_valid t accepted_human human_def render_success_def
        sample_config_def env_def)
qed

text \<open>
  When a field check fails, the form data of the 400 response is \<^verbatim>\<open>req.body\<close> as the
  sanitizers left it.
\<close>

lemma formData_echo_is_sanitized:
  assumes "snd (validateForm pf raw) \<noteq> []"
  shows "run (post_contact_us cfg pf raw) w g =
           Some (Responded 400 (Render ''contact''
                   \<lparr>title = ''Contact Us'',
                    errors = mapped (snd (validateForm pf raw)),
                    formData = fst (validateForm pf raw),
                    successMessage = None,
                    siteKey = env (RECAPTCHA_SITE_KEY cfg)\<rparr>), [])"
  using assms by (simp add: post_contact_us_unfold run_handler_invalid render_contact_def)

text \<open>
  Claim C6 asks that the 400 response echo the submitted input unchanged. The sample
  submission has the first name \<^verbatim>\<open>" Tom & Ann "\<close> and no message; the response cites the
  message, and its form data holds the first name trimmed and escaped,
  \<^verbatim>\<open>"Tom &amp; Ann"\<close>, not the submitted one.
\<close>

theorem echoed_form_is_sanitized:
  "sample_untrimmed ''first_name'' = JStr '' Tom & Ann '' \<and>
   run (post_contact_us sample_config sample_platform sample_untrimmed)
       \<lparr>http = [], smtp = []\<rparr> no_globals =
     Some (Responded 400 (Render ''contact''
             \<lparr>title = ''Contact Us'',
              errors = [''message'' \<mapsto> ''Message is required''],
              formData = sample_untrimmed(''first_name'' := JStr ''Tom &amp; Ann''),
              successMessage = None,
              siteKey = JStr ''site''\<rparr>), [])"
  by (simp add: post_contact_us_unfold sample_untrimmed_invalid run_handler_invalid
      render_contact_def mapped_def sample_config_def env_def)
    (simp add: sample_untrimmed_def)

section \<open>Requests in flight together: one shared variable, independent outcomes\<close>

lemma own_data_run:
  "own_data p m \<Longrightarrow> (\<forall>v. m = Some v \<longrightarrow> data g = Some v \<and> data g' = Some v) \<Longrightarrow>
   run p w g = run p w g'"
proof (induction p arbitrary: m g g' w)
  case (Halt out)
  then show ?case by simp
next
  case (Fetch u i k)
  show ?case
  proof (cases "http w")
    case Nil
    then show ?thesis by simp
  next
    case (Cons a as)
    have "own_data (k a) None" using Fetch.prems(1) by simp
    then have "run (k a) (w\<lparr>http := as\<rparr>) g = run (k a) (w\<lparr>http := as\<rparr>) g'"
      by (rule Fetch.IH [OF rangeI]) simp
    then show ?thesis using Cons by simp
  qed
next
  case (ReadJson r k)
  have "own_data (k (json r)) None" using ReadJson.prems(1) by simp
  then have "run (k (json r)) w g = run (k (json r)) w g'"
    by (rule ReadJson.IH [OF rangeI]) simp
  then show ?case by simp
next
  case (SendMail t ml k)
  show ?case
  proof (cases "smtp w")
    case Nil
    then show ?thesis by simp
  next
    case (Cons a as)
    have "own_data (k a) None" using SendMail.prems(1) by simp
    then have "run (k a) (w\<lparr>smtp := as\<rparr>) g = run (k a) (w\<lparr>smtp := as\<rparr>) g'"
      by (rule SendMail.IH [OF rangeI]) simp
    then show ?thesis using Cons by simp
  qed
next
  case (SetGlobal v p)
  have "own_data p (Some v)" using SetGlobal.prems(1) by simp
  then have "run p w (g\<lparr>data := Some v\<rparr>) = run p w (g'\<lparr>data := Some v\<rparr>)"
    by (rule SetGlobal.IH) simp
  then show ?case by simp
next
  case (GetGlobal k)
  from GetGlobal.prems(1) obtain v where m: "m = Some v" and o: "own_data (k (Some v)) m"
    by (cases m) auto
  from m GetGlobal.prems(2) have d: "data g = Some v" "data g' = Some v" by auto
  have "run (k (Some v)) w g = run (k (Some v)) w g'"
    using o GetGlobal.prems(2) by (rule GetGlobal.IH [OF rangeI])
  then show ?case using d by simp
qed

lemma own_data_sync:
  "own_data p m \<Longrightarrow> (\<forall>v. m = Some v \<longrightarrow> data g = Some v \<and> data g' = Some v) \<Longrightarrow>
   fst (sync p g) = fst (sync p g') \<and> own_data (fst (sync p g)) None"
proof (induction p arbitrary: m g g')
  case (SetGlobal v p)
  have "own_data p (Some v)" using SetGlobal.prems(1) by simp
  then have "fst (sync p (g\<lparr>data := Some v\<rparr>)) = fst (sync p (g'\<lparr>data := Some v\<rparr>)) \<and>
             own_data (fst (sync p (g\<lparr>data := Some v\<rparr>))) None"
    by (rule SetGlobal.IH) simp
  then show ?case by auto
next
  case (GetGlobal k)
  from GetGlobal.prems(1) obtain v where m: "m = Some v" and o: "own_data (k (Some v)) m"
    by (cases m) auto
  from m GetGlobal.prems(2) have d: "data g = Some v" "data g' = Some v" by auto
  have "fst (sync (k (Some v)) g) = fst (sync (k (Some v)) g') \<and>
        own_data (fst (sync (k (Some v)) g)) None"
    using o GetGlobal.prems(2) by (rule GetGlobal.IH [OF rangeI])
  then show ?case using d by auto
qed simp_all

lemma run_sync: "run p w g = run (fst (sync p g)) w (snd (sync p g))"
  by (induction p arbitrary: g) simp_all

lemma own_data_deliver:
  "own_data p None \<Longrightarrow> deliver p w = Some (p', w', cs) \<Longrightarrow> own_data p' None"
  by (cases p) (auto split: list.splits)

lemma run_deliver:
  "deliver p w = Some (p', w', cs) \<Longrightarrow>
   run p w g = map_option (\<lambda>(out, cs'). (out, cs @ cs')) (run p' w' g)"
  by (cases p) (auto simp add: option.map_id split: list.splits)

lemma turn_waiting:
  "deliver (fst (sync (code t) g)) (answers t) = None \<Longrightarrow>
   turn t g = (t\<lparr>code := fst (sync (code t) g)\<rparr>, snd (sync (code t) g))"
  by (simp add: turn_def split_def Let_def)

lemma turn_answered:
  "deliver (fst (sync (code t) g)) (answers t) = Some (p', w', cs) \<Longrightarrow>
   turn t g = (\<lparr>code = p', answers = w', calls = calls t @ cs\<rparr>, snd (sync (code t) g))"
  by (simp add: turn_def split_def Let_def)

lemma turn_code_own_data:
  assumes "own_data (code t) None"
  shows "own_data (code (fst (turn t g))) None"
proof -
  have o: "own_data (fst (sync (code t) g)) None"
    using own_data_sync [OF assms, of g g] by simp
  show ?thesis
  proof (cases "deliver (fst (sync (code t) g)) (answers t)")
    case None
    then show ?thesis using o by (simp add: turn_waiting)
  next
    case (Some r)
    obtain p' w' cs where r: "r = (p', w', cs)" by (cases r)
    have "own_data p' None" using o Some r by (auto dest: own_data_deliver)
    then show ?thesis using Some r by (simp add: turn_answered)
  qed
qed

text \<open>
  A turn of a request, on whatever the global object holds, leaves what the request
  will do in the end as it was.
\<close>

lemma turn_finish:
  assumes "own_data (code t) None"
  shows "finish (fst (turn t g)) g1 = finish t g2"
proof -
  let ?p = "fst (sync (code t) g)"
  let ?g = "snd (sync (code t) g)"
  have o: "own_data ?p None"
    using own_data_sync [OF assms, of g g] by simp
  have "run (code t) (answers t) g2 = run (code t) (answers t) g"
    using assms by (rule own_data_run) simp
  also have "\<dots> = run ?p (answers t) ?g"
    by (rule run_sync)
  finally have start: "run (code t) (answers t) g2 = run ?p (answers t) ?g" .
  show ?thesis
  proof (cases "deliver ?p (answers t)")
    case None
    have "run ?p (answers t) g1 = run ?p (answers t) ?g"
      using o by (rule own_data_run) simp
    then show ?thesis using None start by (simp add: finish_def turn_waiting)
  next
    case (Some r)
    obtain p' w' cs where r: "r = (p', w', cs)" by (cases r)
    have o': "own_data p' None" using o Some r by (auto dest: own_data_deliver)
    have "run ?p (answers t) ?g = map_option (\<lambda>(out, cs'). (out, cs @ cs')) (run p' w' ?g)"
      using Some r by (simp add: run_deliver)
    moreover have "run p' w' ?g = run p' w' g1"
      using o' by (rule own_data_run) simp
    ultimately show ?thesis
      using Some r start
      by (simp add: finish_def turn_answered option.map_comp comp_def split_def)
  qed
qed

lemma sched_step:
  "j < length ts \<Longrightarrow>
   sched (j # js) (ts, g) = sched js (ts[j := fst (turn (ts ! j) g)], snd (turn (ts ! j) g))"
  by (simp add: split_def Let_def)

lemma sched_length: "length (fst (sched js (ts, g))) = length ts"
  by (induction js arbitrary: ts g) (simp_all add: split_def Let_def)

lemma sched_isolated:
  assumes "\<forall>i < length ts. own_data (code (ts ! i)) None"
      and "i < length ts"
  shows "own_data (code (fst (sched js (ts, g)) ! i)) None \<and>
         finish (fst (sched js (ts, g)) ! i) g1 = finish (ts ! i) g2"
  using assms
proof (induction js arbitrary: ts g)
  case Nil
  have "run (code (ts ! i)) (answers (ts ! i)) g1 = run (code (ts ! i)) (answers (ts ! i)) g2"
    using Nil by (intro own_data_run [where m = None]) simp_all
  then show ?case using Nil by (simp add: finish_def)
next
  case (Cons j js)
  show ?case
  proof (cases "j < length ts")
    case False
    then show ?thesis using Cons by simp
  next
    case True
    let ?t = "fst (turn (ts ! j) g)"
    let ?g = "snd (turn (ts ! j) g)"
    let ?ts = "ts[j := ?t]"
    have oj: "own_data (code (ts ! j)) None" using Cons.prems(1) True by simp
    have all: "\<forall>i < length ?ts. own_data (code (?ts ! i)) None"
    proof (intro allI impI)
      fix i assume "i < length ?ts"
      then show "own_data (code (?ts ! i)) None"
        using Cons.prems(1) turn_code_own_data [OF oj, of g]
        by (cases "i = j") simp_all
    qed
    have len: "i < length ?ts" using Cons.prems(2) by simp
    have ih: "own_data (code (fst (sched js (?ts, ?g)) ! i)) None \<and>
              finish (fst (sched js (?ts, ?g)) ! i) g1 = finish (?ts ! i) g2"
      using all len by (rule Cons.IH)
    have "finish (?ts ! i) g2 = finish (ts ! i) g2"
      using True Cons.prems(2) turn_finish [OF oj, of g g2 g2]
      by (cases "i = j") simp_all
    then show ?thesis using ih True by (simp add: sched_step del: sched.simps)
  qed
qed

text \<open>
  The handler reads the global \<^verbatim>\<open>data\<close> at lines 122 and 136; the write of line 121
  comes just before, and no \<^verbatim>\<open>await\<close> stands between the write and the reads.
\<close>

lemma own_data_post_contact_us: "own_data (post_contact_us cfg pf raw) None"
  by (simp add: post_contact_us_def handler_def verify_def check_score_def data_member_def
      send_email_def subscribe_def split_def Let_def split: option.splits)

lemma turn_task_own:
  assumes "own_data (code t) None"
  shows "fst (turn t g) = fst (turn t g')"
proof -
  have "fst (sync (code t) g) = fst (sync (code t) g')"
    using own_data_sync [OF assms, of g g'] by simp
  then show ?thesis
    by (simp add: turn_def split_def Let_def split: option.splits)
qed

text \<open>
  In every interleaving, a request is where it would be after as many turns alone: what
  the other requests do, and whether their calls are ever answered, does not move it.
\<close>

lemma sched_alone:
  assumes "\<forall>i < length ts. own_data (code (ts ! i)) None"
      and "i < length ts"
  shows "fst (sched js (ts, g)) ! i = alone (count_list js i) (ts ! i)"
  using assms
proof (induction js arbitrary: ts g)
  case Nil
  then show ?case by simp
next
  case (Cons j js)
  show ?case
  proof (cases "j < length ts")
    case False
    then have "i \<noteq> j" using Cons.prems(2) by auto
    then show ?thesis using False Cons by simp
  next
    case True
    let ?t = "fst (turn (ts ! j) g)"
    let ?g = "snd (turn (ts ! j) g)"
    let ?ts = "ts[j := ?t]"
    have oj: "own_data (code (ts ! j)) None" using Cons.prems(1) True by simp
    have all: "\<forall>i < length ?ts. own_data (code (?ts ! i)) None"
    proof (intro allI impI)
      fix i assume "i < length ?ts"
      then show "own_data (code (?ts ! i)) None"
        using Cons.prems(1) turn_code_own_data [OF oj, of g]
        by (cases "i = j") simp_all
    qed
    have len: "i < length ?ts" using Cons.prems(2) by simp
    have ih: "fst (sched js (?ts, ?g)) ! i = alone (count_list js i) (?ts ! i)"
      using all len by (rule Cons.IH)
    show ?thesis
    proof (cases "i = j")
      case True
      have "?t = fst (turn (ts ! j) \<lparr>data = None\<rparr>)"
        using oj by (rule turn_task_own)
      then show ?thesis
        using ih True \<open>j < length ts\<close> by (simp add: sched_step del: sched.simps)
    next
      case False
      then show ?thesis
        using ih True by (simp add: sched_step del: sched.simps)
    qed
  qed
qed

lemma turn_halted: "code t = Halt out \<Longrightarrow> fst (turn t g) = t"
  by (simp add: turn_def)

lemma alone_halted: "code t = Halt out \<Longrightarrow> alone n t = t"
  by (induction n) (simp_all add: turn_halted)

lemma alone_add: "alone (m + n) t = alone n (alone m t)"
  by (induction m arbitrary: t) simp_all

lemma turn_SetGlobal:
  "turn \<lparr>code = SetGlobal v p, answers = w, calls = c\<rparr> g =
   turn \<lparr>code = p, answers = w, calls = c\<rparr> (g\<lparr>data := Some v\<rparr>)"
  by (simp add: turn_def split_def Let_def split: option.splits)

lemma turn_GetGlobal:
  "turn \<lparr>code = GetGlobal k, answers = w, calls = c\<rparr> g =
   turn \<lparr>code = k (data g), answers = w, calls = c\<rparr> g"
  by (simp add: turn_def split_def Let_def split: option.splits)

lemma answered_program_ends:
  "own_data p m \<Longrightarrow> (\<forall>v. m = Some v \<longrightarrow> data g = Some v) \<Longrightarrow>
   run p w g = Some (out, cs) \<Longrightarrow>
   \<exists>n. code (alone n (fst (turn \<lparr>code = p, answers = w, calls = c\<rparr> g))) = Halt out \<and>
       calls (alone n (fst (turn \<lparr>code = p, answers = w, calls = c\<rparr> g))) = c @ cs"
proof (induction p arbitrary: m g w cs c)
  case (Halt x)
  then show ?case
    by (intro exI [of _ 0]) (simp add: turn_def)
next
  case (Fetch u i k)
  from Fetch.prems(3) obtain a as cs' where
    h: "http w = a # as" and r: "run (k a) (w\<lparr>http := as\<rparr>) g = Some (out, cs')"
    and cs: "cs = HttpCall u i # cs'"
    by (auto split: list.splits)
  let ?t = "\<lparr>code = k a, answers = w\<lparr>http := as\<rparr>, calls = c @ [HttpCall u i]\<rparr>"
  have o: "own_data (k a) None" using Fetch.prems(1) by simp
  have r': "run (k a) (w\<lparr>http := as\<rparr>) \<lparr>data = None\<rparr> = Some (out, cs')"
    using own_data_run [OF o, of "\<lparr>data = None\<rparr>" g] r by simp
  have "\<exists>n. code (alone n (fst (turn ?t \<lparr>data = None\<rparr>))) = Halt out \<and>
            calls (alone n (fst (turn ?t \<lparr>data = None\<rparr>))) = (c @ [HttpCall u i]) @ cs'"
    using o _ r' by (rule Fetch.IH [OF rangeI]) simp
  then obtain n where
    "code (alone n (fst (turn ?t \<lparr>data = None\<rparr>))) = Halt out"
    "calls (alone n (fst (turn ?t \<lparr>data = None\<rparr>))) = (c @ [HttpCall u i]) @ cs'"
    by blast
  then show ?case
    using h cs by (intro exI [of _ "Suc n"]) (simp add: turn_def)
next
  case (ReadJson x k)
  let ?t = "\<lparr>code = k (json x), answers = w, calls = c @ []\<rparr>"
  have o: "own_data (k (json x)) None" using ReadJson.prems(1) by simp
  have r': "run (k (json x)) w \<lparr>data = None\<rparr> = Some (out, cs)"
    using own_data_run [OF o, of "\<lparr>data = None\<rparr>" g] ReadJson.prems(3) by simp
  have "\<exists>n. code (alone n (fst (turn ?t \<lparr>data = None\<rparr>))) = Halt out \<and>
            calls (alone n (fst (turn ?t \<lparr>data = None\<rparr>))) = (c @ []) @ cs"
    using o _ r' by (rule ReadJson.IH [OF rangeI]) simp
  then obtain n where
    "code (alone n (fst (turn ?t \<lparr>data = None\<rparr>))) = Halt out"
    "calls (alone n (fst (turn ?t \<lparr>data = None\<rparr>))) = (c @ []) @ cs"
    by blast
  then show ?case
    by (intro exI [of _ "Suc n"]) (simp add: turn_def)
next
  case (SendMail tr ml k)
  from SendMail.prems(3) obtain a as cs' where
    h: "smtp w = a # as" and r: "run (k a) (w\<lparr>smtp := as\<rparr>) g = Some (out, cs')"
    and cs: "cs = MailCall tr ml # cs'"
    by (auto split: list.splits)
  let ?t = "\<lparr>code = k a, answers = w\<lparr>smtp := as\<rparr>, calls = c @ [MailCall tr ml]\<rparr>"
  have o: "own_data (k a) None" using SendMail.prems(1) by simp
  have r': "run (k a) (w\<lparr>smtp := as\<rparr>) \<lparr>data = None\<rparr> = Some (out, cs')"
    using own_data_run [OF o, of "\<lparr>data = None\<rparr>" g] r by simp
  have "\<exists>n. code (alone n (fst (turn ?t \<lparr>data = None\<rparr>))) = Halt out \<and>
            calls (alone n (fst (turn ?t \<lparr>data = None\<rparr>))) = (c @ [MailCall tr ml]) @ cs'"
    using o _ r' by (rule SendMail.IH [OF rangeI]) simp
  then obtain n where
    "code (alone n (fst (turn ?t \<lparr>data = None\<rparr>))) = Halt out"
    "calls (alone n (fst (turn ?t \<lparr>data = None\<rparr>))) = (c @ [MailCall tr ml]) @ cs'"
    by blast
  then show ?case
    using h cs by (intro exI [of _ "Suc n"]) (simp add: turn_def)
next
  case (SetGlobal v p)
  have o: "own_data p (Some v)" using SetGlobal.prems(1) by simp
  have r: "run p w (g\<lparr>data := Some v\<rparr>) = Some (out, cs)" using SetGlobal.prems(3) by simp
  have "\<exists>n. code (alone n (fst (turn \<lparr>code = p, answers = w, calls = c\<rparr>
                                   (g\<lparr>data := Some v\<rparr>)))) = Halt out \<and>
            calls (alone n (fst (turn \<lparr>code = p, answers = w, calls = c\<rparr>
                                   (g\<lparr>data := Some v\<rparr>)))) = c @ cs"
    using o _ r by (rule SetGlobal.IH) simp
  then show ?case
    by (simp add: turn_SetGlobal)
next
  case (GetGlobal k)
  from GetGlobal.prems(1) obtain v where m: "m = Some v" and o: "own_data (k (Some v)) m"
    by (cases m) auto
  from m GetGlobal.prems(2) have d: "data g = Some v" by simp
  have r: "run (k (Some v)) w g = Some (out, cs)" using GetGlobal.prems(3) d by simp
  have "\<exists>n. code (alone n (fst (turn \<lparr>code = k (Some v), answers = w, calls = c\<rparr> g))) =
              Halt out \<and>
            calls (alone n (fst (turn \<lparr>code = k (Some v), answers = w, calls = c\<rparr> g))) = c @ cs"
    using o GetGlobal.prems(2) r by (rule GetGlobal.IH [OF rangeI])
  then show ?case
    using d by (simp add: turn_GetGlobal)
qed

text \<open>
  A request whose calls are all answered comes to its end after finitely many of its
  own turns, in every interleaving, with the outcome and the calls it has when run alone.
\<close>

lemma answered_request_ends:
  assumes "length ws = length raws"
      and "i < length raws"
      and "run (post_contact_us cfg pf (raws ! i)) (ws ! i) g0 = Some (out, cs)"
  shows "\<exists>n. \<forall>js g. n \<le> count_list js i \<longrightarrow>
           code (fst (sched js (map2 (arrive cfg pf) raws ws, g)) ! i) = Halt out \<and>
           calls (fst (sched js (map2 (arrive cfg pf) raws ws, g)) ! i) = cs"
proof -
  let ?ts = "map2 (arrive cfg pf) raws ws"
  let ?t = "arrive cfg pf (raws ! i) (ws ! i)"
  have len: "i < length ?ts" using assms(1,2) by simp
  have nth: "?ts ! i = ?t" using assms(1,2) by simp
  have all: "\<forall>j < length ?ts. own_data (code (?ts ! j)) None"
    by (simp add: arrive_def own_data_post_contact_us)
  have r: "run (post_contact_us cfg pf (raws ! i)) (ws ! i) \<lparr>data = None\<rparr> = Some (out, cs)"
    using own_data_run [OF own_data_post_contact_us, of "\<lparr>data = None\<rparr>" g0] assms(3) by simp
  have "\<exists>n. code (alone n (fst (turn \<lparr>code = post_contact_us cfg pf (raws ! i),
                                            answers = ws ! i, calls = []\<rparr> \<lparr>data = None\<rparr>))) =
              Halt out \<and>
            calls (alone n (fst (turn \<lparr>code = post_contact_us cfg pf (raws ! i),
                                            answers = ws ! i, calls = []\<rparr> \<lparr>data = None\<rparr>))) =
              [] @ cs"
    using own_data_post_contact_us _ r by (rule answered_program_ends) simp
  then obtain n where "code (alone (Suc n) ?t) = Halt out" and "calls (alone (Suc n) ?t) = cs"
    by (auto simp add: arrive_def)
  then obtain t where end_at: "alone (Suc n) ?t = t"
    and h: "code t = Halt out" and c: "calls t = cs"
    by blast
  have "code (fst (sched js (?ts, g)) ! i) = Halt out \<and>
        calls (fst (sched js (?ts, g)) ! i) = cs" if "Suc n \<le> count_list js i" for js g
  proof -
    from that have "\<exists>k. count_list js i = Suc n + k"
      by presburger
    then obtain k where k: "count_list js i = Suc n + k"
      by blast
    have "fst (sched js (?ts, g)) ! i = alone (count_list js i) ?t"
      using sched_alone [OF all len] nth by simp
    also have "\<dots> = alone k (alone (Suc n) ?t)"
      unfolding k by (rule alone_add)
    also have "\<dots> = t"
      unfolding end_at using h by (rule alone_halted)
    finally show ?thesis using h c by simp
  qed
  then show ?thesis by blast
qed

lemma finish_arrive: "finish (arrive cfg pf raw w) g = run (post_contact_us cfg pf raw) w g"
  by (simp add: finish_def arrive_def option.map_ident split_def)

lemma finish_halted: "code t = Halt out \<Longrightarrow> finish t g = Some (out, calls t)"
  by (simp add: finish_def)

lemmas pool_defs =
  sample_pool_def arrive_def post_contact_us_unfold sample_submission_valid
  handler_def verify_def check_score_def data_member_def send_email_def subscribe_def
  turn_def Let_def human_world_def bot_world_def human_def bot_def js_less_num_def
  sample_submission_members

lemma sample_pool_run:
  "sched [0, 1, 0, 1, 0, 1, 0, 1, 0] (sample_pool, no_globals) =
     ([\<lparr>code = Halt (render_success sample_config),
        answers = \<lparr>http = [], smtp = []\<rparr>,
        calls =
          [HttpCall verifyUrl (verify_init sample_config sample_platform (JStr ''tok'')),
           HttpCall verifyUrl (verify_init sample_config sample_platform (JStr ''tok'')),
           MailCall (transporter sample_config)
             (mailOptions sample_config sample_platform sample_submission)]\<rparr>,
       \<lparr>code = Halt (captcha_failed sample_config sample_submission),
        answers = \<lparr>http = [], smtp = [True]\<rparr>,
        calls =
          [HttpCall verifyUrl (verify_init sample_config sample_platform (JStr ''tok'')),
           HttpCall verifyUrl (verify_init sample_config sample_platform (JStr ''tok''))]\<rparr>],
      \<lparr>data = json bot\<rparr>)"
  by (simp add: pool_defs no_globals_def)

text \<open>
  The shared variable does not reach the outcomes. Take any number of POST /contact-us
  requests in flight together, each with its own body and its own outside, any
  interleaving \<open>js\<close> of their turns, and any content \<open>g\<close> of the global object at the
  start. When the handler of request \<open>i\<close> has come to its end, its outcome and its
  outbound calls are those of that request run alone, from any content \<open>g0\<close> of the global
  object. This is about what the handlers do: a handler whose promise rejects (lines
  108 and 136) ends here with \<open>Unhandled\<close> and stays within its own request; what the
  runtime does with such a promise is not in the source.
\<close>

lemma requests_do_not_interfere:
  assumes "length ws = length raws"
      and "i < length raws"
      and "code (fst (sched js (map2 (arrive cfg pf) raws ws, g)) ! i) = Halt out"
  shows "run (post_contact_us cfg pf (raws ! i)) (ws ! i) g0 =
           Some (out, calls (fst (sched js (map2 (arrive cfg pf) raws ws, g)) ! i))"
proof -
  let ?ts = "map2 (arrive cfg pf) raws ws"
  have len: "i < length ?ts" using assms(1,2) by simp
  have nth: "?ts ! i = arrive cfg pf (raws ! i) (ws ! i)"
    using assms(1,2) by simp
  have all: "\<forall>j < length ?ts. own_data (code (?ts ! j)) None"
    by (simp add: arrive_def own_data_post_contact_us)
  have "finish (fst (sched js (?ts, g)) ! i) g0 = finish (?ts ! i) g0"
    using sched_isolated [OF all len] by blast
  then have "finish (fst (sched js (?ts, g)) ! i) g0 =
             run (post_contact_us cfg pf (raws ! i)) (ws ! i) g0"
    by (simp only: nth finish_arrive)
  then show ?thesis
    using finish_halted [OF assms(3), of g0] by simp
qed

lemma requests_do_not_interfere_sample:
  "length [human_world, bot_world] = length [sample_submission, sample_submission] \<and>
   (1 :: nat) < length [sample_submission, sample_submission] \<and>
   code (fst (sched [0, 1, 0, 1, 0, 1, 0, 1, 0] (sample_pool, no_globals)) ! 0) =
     Halt (render_success sample_config) \<and>
   code (fst (sched [0, 1, 0, 1, 0, 1, 0, 1, 0] (sample_pool, no_globals)) ! 1) =
     Halt (captcha_failed sample_config sample_submission) \<and>
   run (post_contact_us sample_config sample_platform sample_submission) human_world
       no_globals =
     Some (render_success sample_config,
           [HttpCall verifyUrl (verify_init sample_config sample_platform (JStr ''tok'')),
            HttpCall verifyUrl (verify_init sample_config sample_platform (JStr ''tok'')),
            MailCall (transporter sample_config)
              (mailOptions sample_config sample_platform sample_submission)]) \<and>
   run (post_contact_us sample_config sample_platform sample_submission) bot_world
       no_globals =
     Some (captcha_failed sample_config sample_submission,
           [HttpCall verifyUrl (verify_init sample_config sample_platform (JStr ''tok'')),
            HttpCall verifyUrl (verify_init sample_config sample_platform (JStr ''tok''))])"
proof -
  let ?raws = "[sample_submission, sample_submission]"
  let ?ws = "[human_world, bot_world]"
  let ?js = "[0, 1, 0, 1, 0, 1, 0, 1, 0] :: nat list"
  have l: "length ?ws = length ?raws"
    by simp
  have p: "map2 (arrive sample_config sample_platform) ?raws ?ws = sample_pool"
    by (simp add: sample_pool_def)
  have c0: "code (fst (sched ?js (sample_pool, no_globals)) ! 0) =
              Halt (render_success sample_config)"
    by (simp only: sample_pool_run) simp
  have c1: "code (fst (sched ?js (sample_pool, no_globals)) ! 1) =
              Halt (captcha_failed sample_config sample_submission)"
    by (simp only: sample_pool_run) simp
  have k0: "calls (fst (sched ?js (sample_pool, no_globals)) ! 0) =
              [HttpCall verifyUrl (verify_init sample_config sample_platform (JStr ''tok'')),
               HttpCall verifyUrl (verify_init sample_config sample_platform (JStr ''tok'')),
               MailCall (transporter sample_config)
                 (mailOptions sample_config sample_platform sample_submission)]"
    by (simp only: sample_pool_run) simp
  have k1: "calls (fst (sched ?js (sample_pool, no_globals)) ! 1) =
              [HttpCall verifyUrl (verify_init sample_config sample_platform (JStr ''tok'')),
               HttpCall verifyUrl (verify_init sample_config sample_platform (JStr ''tok''))]"
    by (simp only: sample_pool_run) simp
  have i0: "0 < length ?raws" and i1: "1 < length ?raws"
    by simp_all
  have n0: "?raws ! 0 = sample_submission" "?ws ! 0 = human_world"
    and n1: "?raws ! 1 = sample_submission" "?ws ! 1 = bot_world"
    by simp_all
  have r0: "run (post_contact_us sample_config sample_platform sample_submission) human_world
              no_globals =
            Some (render_success sample_config,
                  calls (fst (sched ?js (sample_pool, no_globals)) ! 0))"
    using requests_do_not_interfere [OF l i0 c0 [folded p], of no_globals]
    by (simp only: p n0)
  have r1: "run (post_contact_us sample_config sample_platform sample_submission) bot_world
              no_globals =
            Some (captcha_failed sample_config sample_submission,
                  calls (fst (sched ?js (sample_pool, no_globals)) ! 1))"
    using requests_do_not_interfere [OF l i1 c1 [folded p], of no_globals]
    by (simp only: p n1)
  show ?thesis
    by (intro conjI) (rule l i1 c0 c1 r0 [unfolded k0] r1 [unfolded k1])+
qed

text \<open>
  Claim C1 says that requests in flight together share no mutable state. Line 121
  assigns \<^verbatim>\<open>data\<close> with no declaration, so \<^verbatim>\<open>data\<close> is a variable of the global object,
  written by every request that gets an answer from the verifier. With the two sample
  requests in flight: after the turns in which the first request reads its verifier's
  answer, the global object holds that answer while the second request, which has made
  its first call only, is still in flight; and after four turns of each, the global
  object holds the answer the second request wrote over it.
\<close>

theorem global_data_is_shared:
  "snd (sched [1, 0, 0, 0, 0] (sample_pool, no_globals)) = \<lparr>data = json human\<rparr> \<and>
   answers (fst (sched [1, 0, 0, 0, 0] (sample_pool, no_globals)) ! 1) =
     \<lparr>http = [Some bot], smtp = [True]\<rparr> \<and>
   calls (fst (sched [1, 0, 0, 0, 0] (sample_pool, no_globals)) ! 1) =
     [HttpCall verifyUrl (verify_init sample_config sample_platform (JStr ''tok''))] \<and>
   snd (sched [0, 1, 0, 1, 0, 1, 0, 1] (sample_pool, no_globals)) = \<lparr>data = json bot\<rparr> \<and>
   json human \<noteq> json bot \<and>
   data no_globals = None"
  by (simp add: pool_defs no_globals_def)

end
